theory Spec2Isabelle
  imports Main
begin

section \<open>Data model\<close>

text \<open>
  The service (\<^verbatim>\<open>src/service.py\<close>) downloads one pipe-delimited table per Brazilian state,
  concatenates the tables, cleans three columns, writes a CSV snapshot and posts the
  records to a local API.

  A pandas cell read with \<^verbatim>\<open>dtype=str\<close> is either a text or the missing value NaN:
  \<open>None\<close> stands for NaN. A column label is a position (\<^verbatim>\<open>header=None\<close> numbers the
  columns 0, 1, 2, ...) or a name. A frame is its column labels and its rows; in a frame
  built by pandas every row has one cell per column (\<open>wf_frame\<close>).
\<close>

type_synonym cell = "string option"

datatype label = Pos nat | Name string

record DataFrame =
  columns :: "label list"
  rows :: "cell list list"

definition wf_frame :: "DataFrame \<Rightarrow> bool" where
  "wf_frame df = list_all (\<lambda>r. length r = length (columns df)) (rows df)"

text \<open>Python values stored in the catalogue's dictionaries, and dictionaries as association lists.\<close>

datatype pyval = PInt int | PStr string | PNone

type_synonym pydict = "(string \<times> pyval) list"

text \<open>
  The exceptions the code can meet, by the classes its handlers tell apart.
  \<open>RequestException\<close> carries the message and the text of \<^verbatim>\<open>e.response\<close> when there is one.
  All of them are subclasses of Python's \<^verbatim>\<open>Exception\<close>; asynchronous interrupts are outside
  the model.
\<close>

datatype pyexn =
    KeyError string
  | ValueError string
  | RequestException string "string option"
  | ParserError string
  | OSError string
  | OtherException string

datatype 'a outcome = Raises pyexn | Returns 'a

text \<open>Log records, one constructor per message of the source, and the observable events of a run.\<close>

datatype level = INFO | WARNING | ERROR

datatype log_msg =
    Iniciando
  | Ignorando pyval
  | RespostaVazia pyval
  | SucessoProcessar pyval
  | ErroRede pyval pyexn
  | ErroParsing pyval pyexn
  | ErroInesperado pyval pyexn
  | Aplicando
  | DataFrameVazio
  | PreparandoEnvio nat string
  | SucessoApi string
  | ErroEnvio pyexn
  | DetalhesResposta string
  | NenhumDado
  | Consolidando
  | ArquivoSalvo string
  | Concluido

type_synonym payload = "(label \<times> cell) list list"

datatype event =
    is_Log: Log level log_msg
  | is_HttpGet: HttpGet string pydict nat
  | is_ToCsv: ToCsv string DataFrame
  | is_HttpPost: HttpPost string payload nat

section \<open>Constants\<close>

definition BASE_URL :: string where
  "BASE_URL = ''https://www.sped.fazenda.gov.br/spedtabelas/appconsulta/obterTabelaExterna.aspx''"

definition API_URL :: string where
  "API_URL = ''http://localhost:8080/codigos-ajustes-apuracao/sincronizar''"

definition OUTPUT_FILENAME :: string where
  "OUTPUT_FILENAME = ''codigos_ajustes_apuracao_final.csv''"

definition DEFAULT_DATA_FIM :: string where
  "DEFAULT_DATA_FIM = ''31129999''"

definition COLUNAS :: "label list" where
  "COLUNAS = [Name ''cod_aj_apur'', Name ''descricao'', Name ''data_inicio'', Name ''data_fim'']"

definition REQUEST_TIMEOUT :: nat where
  "REQUEST_TIMEOUT = 30"

section \<open>The pandas operations the source calls\<close>

text \<open>\<^verbatim>\<open>df.columns = labels\<close>: pandas raises ValueError when the number of labels differs.\<close>

definition set_columns :: "DataFrame \<Rightarrow> label list \<Rightarrow> DataFrame outcome" where
  "set_columns df ls =
     (if length ls = length (columns df) then Returns (df\<lparr>columns := ls\<rparr>)
      else Raises (ValueError ''Length mismatch''))"

fun col_pos :: "label \<Rightarrow> label list \<Rightarrow> nat option" where
  "col_pos l [] = None"
| "col_pos l (x # xs) =
     (if x = l then Some 0 else (case col_pos l xs of None \<Rightarrow> None | Some j \<Rightarrow> Some (Suc j)))"

definition cell_at :: "cell list \<Rightarrow> nat \<Rightarrow> cell" where
  "cell_at r j = (if j < length r then r ! j else None)"

text \<open>\<^verbatim>\<open>df[l]\<close>: the column as a series, KeyError when there is no such label.\<close>

definition getitem :: "DataFrame \<Rightarrow> label \<Rightarrow> cell list outcome" where
  "getitem df l =
     (case col_pos l (columns df) of
        None \<Rightarrow> Raises (KeyError ''column'')
      | Some j \<Rightarrow> Returns (map (\<lambda>r. cell_at r j) (rows df)))"

text \<open>\<^verbatim>\<open>df[l] = series\<close>: overwrites the column when the label exists, appends it otherwise.\<close>

definition setitem :: "DataFrame \<Rightarrow> label \<Rightarrow> cell list \<Rightarrow> DataFrame" where
  "setitem df l s =
     (case col_pos l (columns df) of
        Some j \<Rightarrow> df\<lparr>rows := map2 (\<lambda>r v. r[j := v]) (rows df) s\<rparr>
      | None \<Rightarrow> df\<lparr>columns := columns df @ [l], rows := map2 (\<lambda>r v. r @ [v]) (rows df) s\<rparr>)"

definition fillna :: "cell list \<Rightarrow> string \<Rightarrow> cell list" where
  "fillna s v = map (\<lambda>c. case c of None \<Rightarrow> Some v | Some x \<Rightarrow> Some x) s"

definition replace_values :: "cell list \<Rightarrow> string list \<Rightarrow> string \<Rightarrow> cell list" where
  "replace_values s olds v =
     map (\<lambda>c. case c of None \<Rightarrow> None | Some x \<Rightarrow> if x \<in> set olds then Some v else Some x) s"

text \<open>
  Python's \<^verbatim>\<open>str.replace(old, new)\<close>: left to right, occurrences that do not overlap; an
  empty \<open>old\<close> matches at every boundary.
\<close>

function py_replace :: "string \<Rightarrow> string \<Rightarrow> string \<Rightarrow> string" where
  "py_replace old new s =
     (if old = [] then new @ concat (map (\<lambda>c. c # new) s)
      else if s = [] then []
      else if take (length old) s = old then new @ py_replace old new (drop (length old) s)
      else hd s # py_replace old new (tl s))"
  by pat_completeness auto
termination
  by (relation "measure (\<lambda>(old, new, s). length s)") auto

declare py_replace.simps [simp del]

text \<open>\<^verbatim>\<open>series.str.replace(old, new, regex=False)\<close> and \<^verbatim>\<open>series.str[:n]\<close> leave NaN as it is.\<close>

definition str_replace :: "cell list \<Rightarrow> string \<Rightarrow> string \<Rightarrow> cell list" where
  "str_replace s old new = map (map_option (py_replace old new)) s"

definition str_slice_to :: "cell list \<Rightarrow> nat \<Rightarrow> cell list" where
  "str_slice_to s n = map (map_option (take n)) s"

section \<open>process_and_clean_data\<close>

text \<open>
  Lines 103 to 117. The source changes the frame in place and returns it; the model returns
  the changed frame, so a second call on the same object is a call on the first call's result.
\<close>

definition process_and_clean_data :: "DataFrame \<Rightarrow> event list \<times> DataFrame outcome" where
  "process_and_clean_data df =
     ([Log INFO Aplicando],
      case set_columns df COLUNAS of
        Raises e \<Rightarrow> Raises e
      | Returns df1 \<Rightarrow>
     (case getitem df1 (Name ''data_fim'') of
        Raises e \<Rightarrow> Raises e
      | Returns fim \<Rightarrow>
     (let df2 = setitem df1 (Name ''data_fim'')
                  (replace_values (fillna fim DEFAULT_DATA_FIM) [''nan'', ''NaN'', ''''] DEFAULT_DATA_FIM)
      in case getitem df2 (Name ''descricao'') of
        Raises e \<Rightarrow> Raises e
      | Returns descr \<Rightarrow>
     (let df3 = setitem df2 (Name ''descricao'') (str_replace descr [CHR 0x27] [CHR 0x27, CHR 0x27])
      in case getitem df3 (Name ''cod_aj_apur'') of
        Raises e \<Rightarrow> Raises e
      | Returns cod \<Rightarrow>
          Returns (setitem df3 (Name ''uf'') (str_slice_to cod 2))))))"

text \<open>\<^verbatim>\<open>df.empty\<close>: some axis has length 0.\<close>

definition df_empty :: "DataFrame \<Rightarrow> bool" where
  "df_empty df = (rows df = [] \<or> columns df = [])"

text \<open>
  \<^verbatim>\<open>pd.concat(dfs, ignore_index=True)\<close>: the columns are the union of the frames' labels in
  order of first appearance, each row is laid out on them, NaN where its frame has no such
  column.
\<close>

definition union_cols :: "label list list \<Rightarrow> label list" where
  "union_cols ls = foldl (\<lambda>acc l. if l \<in> set acc then acc else acc @ [l]) [] (concat ls)"

definition reindex_row :: "label list \<Rightarrow> label list \<Rightarrow> cell list \<Rightarrow> cell list" where
  "reindex_row new_cols old_cols r =
     map (\<lambda>l. case map_of (zip old_cols r) l of None \<Rightarrow> None | Some c \<Rightarrow> c) new_cols"

definition concat_frames :: "DataFrame list \<Rightarrow> DataFrame" where
  "concat_frames dfs =
     (let cols = union_cols (map columns dfs)
      in \<lparr>columns = cols,
          rows = concat (map (\<lambda>df. map (reindex_row cols (columns df)) (rows df)) dfs)\<rparr>)"

text \<open>\<^verbatim>\<open>df.to_dict(orient='records')\<close>: one dictionary per row, keyed by the column labels.\<close>

definition to_dict_records :: "DataFrame \<Rightarrow> payload" where
  "to_dict_records df = map (\<lambda>r. zip (columns df) r) (rows df)"

section \<open>The outside world\<close>

text \<open>
  The network, the CSV parser of pandas and the file system are not part of the repository:
  they are parameters. Each call either raises or returns. \<open>read_csv\<close> stands for
  \<^verbatim>\<open>pd.read_csv(io.StringIO(text), sep='|', encoding='cp1252', skiprows=1, header=None, dtype=str)\<close>.
  A request is answered as a function of its arguments.
\<close>

datatype response = Response (status_code: nat) (resp_text: string)

record env =
  requests_get :: "string \<Rightarrow> pydict \<Rightarrow> nat \<Rightarrow> response outcome"
  read_csv :: "string \<Rightarrow> DataFrame outcome"
  to_csv :: "DataFrame \<Rightarrow> string \<Rightarrow> unit outcome"
  requests_post :: "string \<Rightarrow> payload \<Rightarrow> nat \<Rightarrow> response outcome"
  response_json :: "response \<Rightarrow> string outcome"

text \<open>\<^verbatim>\<open>response.raise_for_status()\<close>: HTTPError, a RequestException, for a 4xx or 5xx status.\<close>

definition raise_for_status :: "response \<Rightarrow> unit outcome" where
  "raise_for_status r =
     (if 400 \<le> status_code r \<and> status_code r < 600
      then Raises (RequestException ''HTTPError'' (Some (resp_text r)))
      else Returns ())"

text \<open>Dictionary access: \<^verbatim>\<open>d.get(k)\<close>, \<^verbatim>\<open>d.get(k, default)\<close> and \<^verbatim>\<open>d[k]\<close>.\<close>

definition dict_get :: "pydict \<Rightarrow> string \<Rightarrow> pyval" where
  "dict_get d k = (case map_of d k of None \<Rightarrow> PNone | Some v \<Rightarrow> v)"

definition dict_get_default :: "pydict \<Rightarrow> string \<Rightarrow> pyval \<Rightarrow> pyval" where
  "dict_get_default d k v0 = (case map_of d k of None \<Rightarrow> v0 | Some v \<Rightarrow> v)"

definition dict_index :: "pydict \<Rightarrow> string \<Rightarrow> pyval outcome" where
  "dict_index d k = (case map_of d k of None \<Rightarrow> Raises (KeyError k) | Some v \<Rightarrow> Returns v)"

text \<open>\<^verbatim>\<open>str.strip()\<close> removes leading and trailing whitespace (the whitespace of the first 256 code points).\<close>

definition py_isspace :: "char \<Rightarrow> bool" where
  "py_isspace c =
     (let n = (of_char c :: nat)
      in (9 \<le> n \<and> n \<le> 13) \<or> (28 \<le> n \<and> n \<le> 32) \<or> n = 133 \<or> n = 160)"

definition py_strip :: "string \<Rightarrow> string" where
  "py_strip s = rev (dropWhile py_isspace (rev (dropWhile py_isspace s)))"

section \<open>The catalogue\<close>

definition DADOS_ESTADUAIS :: "pydict list" where
  "DADOS_ESTADUAIS =
    [[(''idPacote'', PInt 11), (''UF'', PStr ''Bahia''), (''idTabela'', PInt 190)],
     [(''idPacote'', PInt 21), (''UF'', PStr ''Paraiba''), (''idTabela'', PInt 46)],
     [(''idPacote'', PInt 8), (''UF'', PStr ''Alagoas''), (''idTabela'', PInt 33)],
     [(''idPacote'', PInt 15), (''UF'', PStr ''Goias''), (''idTabela'', PInt 37)],
     [(''idPacote'', PInt 19), (''UF'', PStr ''Minas Gerais''), (''idTabela'', PInt 43)],
     [(''idPacote'', PInt 22), (''UF'', PStr ''Pernambuco''), (''idTabela'', PInt 212)],
     [(''idPacote'', PInt 29), (''UF'', PStr ''Rondonia''), (''idTabela'', PInt 53)],
     [(''idPacote'', PInt 28), (''UF'', PStr ''Roraima''), (''idTabela'', PNone)],
     [(''idPacote'', PInt 30), (''UF'', PStr ''Santa Catarina''), (''idTabela'', PInt 54)],
     [(''idPacote'', PInt 31), (''UF'', PStr ''Sao Paulo''), (''idTabela'', PInt 247)],
     [(''idPacote'', PInt 32), (''UF'', PStr ''Sergipe''), (''idTabela'', PInt 56)],
     [(''idPacote'', PInt 33), (''UF'', PStr ''Tocantins''), (''idTabela'', PInt 59)],
     [(''idPacote'', PInt 7), (''UF'', PStr ''Acre''), (''idTabela'', PInt 727)],
     [(''idPacote'', PInt 10), (''UF'', PStr ''Amapa''), (''idTabela'', PInt 842)],
     [(''idPacote'', PInt 9), (''UF'', PStr ''Amazonas''), (''idTabela'', PInt 220)],
     [(''idPacote'', PInt 12), (''UF'', PStr ''Ceara''), (''idTabela'', PInt 36)],
     [(''idPacote'', PInt 13), (''UF'', PStr ''Distrito Federal''), (''idTabela'', PInt 838)],
     [(''idPacote'', PInt 14), (''UF'', PStr ''Espirito Santo''), (''idTabela'', PInt 171)],
     [(''idPacote'', PInt 16), (''UF'', PStr ''Maranhao''), (''idTabela'', PInt 122)],
     [(''idPacote'', PInt 17), (''UF'', PStr ''Mato Grosso''), (''idTabela'', PInt 131)],
     [(''idPacote'', PInt 18), (''UF'', PStr ''Mato Grosso do Sul''), (''idTabela'', PInt 42)],
     [(''idPacote'', PInt 20), (''UF'', PStr ''Para''), (''idTabela'', PInt 123)],
     [(''idPacote'', PInt 23), (''UF'', PStr ''Parana''), (''idTabela'', PInt 50)],
     [(''idPacote'', PInt 24), (''UF'', PStr ''Piaui''), (''idTabela'', PInt 127)],
     [(''idPacote'', PInt 25), (''UF'', PStr ''Rio de Janeiro''), (''idTabela'', PInt 52)],
     [(''idPacote'', PInt 26), (''UF'', PStr ''Rio Grande do Norte''), (''idTabela'', PInt 126)],
     [(''idPacote'', PInt 27), (''UF'', PStr ''Rio Grande do Sul''), (''idTabela'', PInt 173)]]"

section \<open>fetch_state_data\<close>

text \<open>
  Lines 53 to 101. The three \<^verbatim>\<open>except\<close> clauses tell the exception classes apart, log an error
  and fall through to \<^verbatim>\<open>return None\<close>. The dictionary lookup \<^verbatim>\<open>estado["idPacote"]\<close> of line 70
  stands before the \<^verbatim>\<open>try\<close>, so its KeyError leaves the function.
\<close>

definition fetch_except :: "pyval \<Rightarrow> pyexn \<Rightarrow> event" where
  "fetch_except uf_nome e =
     (case e of
        RequestException m r \<Rightarrow> Log ERROR (ErroRede uf_nome e)
      | ParserError m \<Rightarrow> Log ERROR (ErroParsing uf_nome e)
      | _ \<Rightarrow> Log ERROR (ErroInesperado uf_nome e))"

definition fetch_state_data :: "env \<Rightarrow> pydict \<Rightarrow> event list \<times> DataFrame option outcome" where
  "fetch_state_data w estado =
     (let id_tabela = dict_get estado ''idTabela'';
          uf_nome = dict_get_default estado ''UF'' (PStr ''Desconhecido'')
      in if id_tabela = PNone then ([Log WARNING (Ignorando uf_nome)], Returns None)
         else
          (case dict_index estado ''idPacote'' of
             Raises e \<Rightarrow> ([], Raises e)
           | Returns id_pacote \<Rightarrow>
          (let params = [(''idTabela'', id_tabela), (''idPacote'', id_pacote)];
               get = HttpGet BASE_URL params REQUEST_TIMEOUT
           in case requests_get w BASE_URL params REQUEST_TIMEOUT of
                Raises e \<Rightarrow> ([get, fetch_except uf_nome e], Returns None)
              | Returns response \<Rightarrow>
             (case raise_for_status response of
                Raises e \<Rightarrow> ([get, fetch_except uf_nome e], Returns None)
              | Returns u \<Rightarrow>
                  if py_strip (resp_text response) = []
                  then ([get, Log WARNING (RespostaVazia uf_nome)], Returns None)
                  else
                   (case read_csv w (resp_text response) of
                      Raises e \<Rightarrow> ([get, fetch_except uf_nome e], Returns None)
                    | Returns df \<Rightarrow>
                        ([get, Log INFO (SucessoProcessar uf_nome)], Returns (Some df)))))))"

section \<open>enviar_dados_para_api\<close>

text \<open>
  Lines 119 to 146. Only a RequestException is caught; it is logged, with the text of its
  response when it has one. Any other exception leaves the function.
\<close>

definition post_except :: "pyexn \<Rightarrow> event list \<times> unit outcome" where
  "post_except e =
     (case e of
        RequestException m r \<Rightarrow>
          (Log ERROR (ErroEnvio e) #
             (case r of None \<Rightarrow> [] | Some t \<Rightarrow> [Log ERROR (DetalhesResposta t)]),
           Returns ())
      | _ \<Rightarrow> ([], Raises e))"

definition enviar_dados_para_api :: "env \<Rightarrow> DataFrame \<Rightarrow> event list \<times> unit outcome" where
  "enviar_dados_para_api w df =
     (if df_empty df then ([Log WARNING DataFrameVazio], Returns ())
      else
       (let payload = to_dict_records df;
            pre = [Log INFO (PreparandoEnvio (length (rows df)) API_URL), HttpPost API_URL payload 120];
            (t, r) =
              (case requests_post w API_URL payload 120 of
                 Raises e \<Rightarrow> post_except e
               | Returns response \<Rightarrow>
              (case raise_for_status response of
                 Raises e \<Rightarrow> post_except e
               | Returns u \<Rightarrow>
              (case response_json w response of
                 Raises e \<Rightarrow> post_except e
               | Returns resultado \<Rightarrow> ([Log INFO (SucessoApi resultado)], Returns ()))))
        in (pre @ t, r)))"

section \<open>main\<close>

text \<open>
  Lines 148 to 174. \<^verbatim>\<open>executor.map\<close> yields the results in the order of the catalogue, and
  re-raises at the first region whose call raised. The fetches run in threads; the model
  lists their events region by region, in catalogue order.
\<close>

fun executor_map ::
  "(pydict \<Rightarrow> event list \<times> DataFrame option outcome) \<Rightarrow> pydict list \<Rightarrow>
   event list \<times> DataFrame option list outcome" where
  "executor_map f [] = ([], Returns [])"
| "executor_map f (e # es) =
     (case f e of
        (t, Raises x) \<Rightarrow> (t, Raises x)
      | (t, Returns r) \<Rightarrow>
         (case executor_map f es of
            (ts, Raises x) \<Rightarrow> (t @ ts, Raises x)
          | (ts, Returns rs) \<Rightarrow> (t @ ts, Returns (r # rs))))"

text \<open>Line 157: \<^verbatim>\<open>[df for df in results if df is not None and not df.empty]\<close>.\<close>

definition all_dfs_of :: "DataFrame option list \<Rightarrow> DataFrame list" where
  "all_dfs_of results = map the (filter (\<lambda>r. r \<noteq> None \<and> \<not> df_empty (the r)) results)"

definition main_on :: "env \<Rightarrow> pydict list \<Rightarrow> event list \<times> unit outcome" where
  "main_on w catalogue =
     (case executor_map (fetch_state_data w) catalogue of
        (t1, Raises e) \<Rightarrow> (Log INFO Iniciando # t1, Raises e)
      | (t1, Returns results) \<Rightarrow>
     (let all_dfs = all_dfs_of results
      in if all_dfs = [] then (Log INFO Iniciando # t1 @ [Log WARNING NenhumDado], Returns ())
         else
          (let df_concat = concat_frames all_dfs;
               t2 = Log INFO Iniciando # t1 @ [Log INFO Consolidando]
           in case process_and_clean_data df_concat of
                (tp, Raises e) \<Rightarrow> (t2 @ tp, Raises e)
              | (tp, Returns df_final) \<Rightarrow>
             (let t3 = t2 @ tp @ [ToCsv OUTPUT_FILENAME df_final]
              in case to_csv w df_final OUTPUT_FILENAME of
                   Raises e \<Rightarrow> (t3, Raises e)
                 | Returns u \<Rightarrow>
                (let t4 = t3 @ [Log INFO (ArquivoSalvo OUTPUT_FILENAME)]
                 in case enviar_dados_para_api w df_final of
                      (ts, Raises e) \<Rightarrow> (t4 @ ts, Raises e)
                    | (ts, Returns u) \<Rightarrow> (t4 @ ts @ [Log INFO Concluido], Returns ()))))))"

definition main :: "env \<Rightarrow> event list \<times> unit outcome" where
  "main w = main_on w DADOS_ESTADUAIS"

section \<open>Example inputs\<close>

text \<open>A raw table of two rows, as the parser returns it, and its normalisation.\<close>

definition raw_example :: DataFrame where
  "raw_example = \<lparr>columns = [Pos 0, Pos 1, Pos 2, Pos 3],
     rows = [[Some ''BA000001'', Some [CHR ''d'', CHR 0x27, CHR ''a''], Some ''01012020'', None],
             [Some ''B'', None, Some ''01012021'', Some ''31122030'']]\<rparr>"

definition normalized_example :: DataFrame where
  "normalized_example = \<lparr>columns = COLUNAS @ [Name ''uf''],
     rows = [[Some ''BA000001'', Some [CHR ''d'', CHR 0x27, CHR 0x27, CHR ''a''], Some ''01012020'',
                Some ''31129999'', Some ''BA''],
             [Some ''B'', None, Some ''01012021'', Some ''31122030'', Some ''B'']]\<rparr>"

text \<open>
  A catalogue of three regions and a world for it: the first region answers with a table
  (the parser returns \<open>raw_example\<close>), the second has no \<open>idTabela\<close>, the third answers
  with a blank body. The snapshot is written, and the API answers the POST with status 500.
\<close>

definition catalogue_example :: "pydict list" where
  "catalogue_example =
     [[(''idPacote'', PInt 11), (''UF'', PStr ''Bahia''), (''idTabela'', PInt 190)],
      [(''idPacote'', PInt 28), (''UF'', PStr ''Roraima''), (''idTabela'', PNone)],
      [(''idPacote'', PInt 8), (''UF'', PStr ''Alagoas''), (''idTabela'', PInt 33)]]"

definition world_example :: env where
  "world_example =
     \<lparr>requests_get = (\<lambda>url params t.
          if params = [(''idTabela'', PInt 190), (''idPacote'', PInt 11)]
          then Returns (Response 200 ''banner'') else Returns (Response 200 '' '')),
      read_csv = (\<lambda>body. Returns raw_example),
      to_csv = (\<lambda>df f. Returns ()),
      requests_post = (\<lambda>url p t. Returns (Response 500 ''boom'')),
      response_json = (\<lambda>r. Returns ''ok'')\<rparr>"

text \<open>The same world with a file system that refuses the snapshot, and with the network down.\<close>

definition world_disk_full :: env where
  "world_disk_full = world_example\<lparr>to_csv := (\<lambda>df f. Raises (OSError ''disk full''))\<rparr>"

definition world_offline :: env where
  "world_offline =
     world_example\<lparr>requests_get := (\<lambda>url params t. Raises (RequestException ''down'' None))\<rparr>"

section \<open>Reference notions\<close>

text \<open>
  The tables of the regions that succeeded with a non-empty table, in the order of the
  catalogue.
\<close>

definition region_tables :: "env \<Rightarrow> pydict list \<Rightarrow> DataFrame list" where
  "region_tables w catalogue =
     concat (map (\<lambda>e. case snd (fetch_state_data w e) of
                         Returns (Some d) \<Rightarrow> if df_empty d then [] else [d]
                       | _ \<Rightarrow> []) catalogue)"

text \<open>
  The number of rows parsed for a region: none when it has no \<open>idTabela\<close>, when the request
  raises or is answered with a 4xx or 5xx status, when the body is blank or when the parser
  raises; the rows of the parsed table otherwise.
\<close>

definition parsed_rows :: "env \<Rightarrow> pydict \<Rightarrow> nat" where
  "parsed_rows w e =
     (if dict_get e ''idTabela'' = PNone then 0
      else
       (case requests_get w BASE_URL
               [(''idTabela'', dict_get e ''idTabela''), (''idPacote'', dict_get e ''idPacote'')]
               REQUEST_TIMEOUT of
          Raises x \<Rightarrow> 0
        | Returns response \<Rightarrow>
            if 400 \<le> status_code response \<and> status_code response < 600 then 0
            else if py_strip (resp_text response) = [] then 0
            else (case read_csv w (resp_text response) of
                    Raises x \<Rightarrow> 0
                  | Returns d \<Rightarrow> length (rows d))))"

section \<open>Normalisation: what \<open>process_and_clean_data\<close> computes\<close>

lemma py_replace_char:
  "py_replace [c] new s = concat (map (\<lambda>x. if x = c then new else [x]) s)"
proof (induction s)
  case Nil
  show ?case by (simp add: py_replace.simps)
next
  case (Cons x xs)
  show ?case
    by (subst py_replace.simps) (simp add: Cons)
qed

lemma col_pos_COLUNAS:
  "col_pos (Name ''cod_aj_apur'') COLUNAS = Some 0"
  "col_pos (Name ''descricao'') COLUNAS = Some 1"
  "col_pos (Name ''data_inicio'') COLUNAS = Some 2"
  "col_pos (Name ''data_fim'') COLUNAS = Some 3"
  "col_pos (Name ''uf'') COLUNAS = None"
  by (simp_all add: COLUNAS_def)

lemma map2_map_same: "map2 f xs (map g xs) = map (\<lambda>x. f x (g x)) xs"
  by (induction xs) auto

lemma getitem_at:
  "col_pos l (columns df) = Some j \<Longrightarrow> getitem df l = Returns (map (\<lambda>r. cell_at r j) (rows df))"
  by (simp add: getitem_def)

lemma setitem_at_map:
  "col_pos l (columns df) = Some j \<Longrightarrow> s = map g (rows df) \<Longrightarrow>
   setitem df l s = df\<lparr>rows := map (\<lambda>r. r[j := g r]) (rows df)\<rparr>"
  by (simp add: setitem_def map2_map_same)

lemma setitem_new_map:
  "col_pos l (columns df) = None \<Longrightarrow> s = map g (rows df) \<Longrightarrow>
   setitem df l s = df\<lparr>columns := columns df @ [l], rows := map (\<lambda>r. r @ [g r]) (rows df)\<rparr>"
  by (simp add: setitem_def map2_map_same)

lemma length4: "length r = 4 \<Longrightarrow> \<exists>a b c d. r = [a, b, c, d]"
  by (auto simp: numeral_eq_Suc length_Suc_conv)

lemma process_rows:
  assumes c4: "length (columns df) = 4" and wf: "wf_frame df"
  shows "snd (process_and_clean_data df) = Returns
      \<lparr>columns = COLUNAS @ [Name ''uf''],
       rows = map (\<lambda>r. [r ! 0, map_option (py_replace [CHR 0x27] [CHR 0x27, CHR 0x27]) (r ! 1), r ! 2,
            (case r ! 3 of None \<Rightarrow> Some DEFAULT_DATA_FIM
               | Some x \<Rightarrow> if x \<in> set [''nan'', ''NaN'', ''''] then Some DEFAULT_DATA_FIM else Some x),
            map_option (take 2) (r ! 0)]) (rows df)\<rparr>"
proof -
  let ?esc = "map_option (py_replace [CHR 0x27] [CHR 0x27, CHR 0x27])"
  let ?cl = "\<lambda>c. case c of None \<Rightarrow> Some DEFAULT_DATA_FIM
               | Some x \<Rightarrow> if x \<in> set [''nan'', ''NaN'', ''''] then Some DEFAULT_DATA_FIM else Some x"
  have len: "\<And>r. r \<in> set (rows df) \<Longrightarrow> length r = 4"
    using wf c4 by (simp add: wf_frame_def list_all_iff)
  define df1 where "df1 = df\<lparr>columns := COLUNAS\<rparr>"
  have sc: "set_columns df COLUNAS = Returns df1"
    using c4 by (simp add: set_columns_def COLUNAS_def df1_def)
  have g1: "getitem df1 (Name ''data_fim'') = Returns (map (\<lambda>r. cell_at r 3) (rows df1))"
    by (rule getitem_at) (simp add: df1_def col_pos_COLUNAS)
  define df2 where "df2 = df1\<lparr>rows := map (\<lambda>r. r[3 := ?cl (cell_at r 3)]) (rows df1)\<rparr>"
  have s2: "setitem df1 (Name ''data_fim'')
       (replace_values (fillna (map (\<lambda>r. cell_at r 3) (rows df1)) DEFAULT_DATA_FIM)
          [''nan'', ''NaN'', ''''] DEFAULT_DATA_FIM) = df2"
    unfolding df2_def
    by (rule setitem_at_map)
       (simp_all add: df1_def col_pos_COLUNAS fillna_def replace_values_def o_def
          split: option.splits del: set_simps)
  have g2: "getitem df2 (Name ''descricao'') = Returns (map (\<lambda>r. cell_at r 1) (rows df2))"
    by (rule getitem_at) (simp add: df2_def df1_def col_pos_COLUNAS)
  define df3 where "df3 = df2\<lparr>rows := map (\<lambda>r. r[1 := ?esc (cell_at r 1)]) (rows df2)\<rparr>"
  have s3: "setitem df2 (Name ''descricao'')
       (str_replace (map (\<lambda>r. cell_at r 1) (rows df2)) [CHR 0x27] [CHR 0x27, CHR 0x27]) = df3"
    unfolding df3_def
    by (rule setitem_at_map) (simp_all add: df2_def df1_def col_pos_COLUNAS str_replace_def o_def)
  have g3: "getitem df3 (Name ''cod_aj_apur'') = Returns (map (\<lambda>r. cell_at r 0) (rows df3))"
    by (rule getitem_at) (simp add: df3_def df2_def df1_def col_pos_COLUNAS)
  have s4: "setitem df3 (Name ''uf'') (str_slice_to (map (\<lambda>r. cell_at r 0) (rows df3)) 2) =
       df3\<lparr>columns := columns df3 @ [Name ''uf''],
           rows := map (\<lambda>r. r @ [map_option (take 2) (cell_at r 0)]) (rows df3)\<rparr>"
    by (rule setitem_new_map) (simp_all add: df3_def df2_def df1_def col_pos_COLUNAS str_slice_to_def o_def)
  define F where "F = (\<lambda>r::cell list.
       (r[3 := ?cl (cell_at r 3)])[1 := ?esc (cell_at (r[3 := ?cl (cell_at r 3)]) 1)] @
         [map_option (take 2) (cell_at ((r[3 := ?cl (cell_at r 3)])[1 := ?esc (cell_at (r[3 := ?cl (cell_at r 3)]) 1)]) 0)])"
  have row: "F r = [r ! 0, ?esc (r ! 1), r ! 2, ?cl (r ! 3), map_option (take 2) (r ! 0)]"
    if mem: "r \<in> set (rows df)" for r
  proof -
    obtain a b c d where "r = [a, b, c, d]" using len [OF mem] length4 by blast
    then show ?thesis by (simp add: F_def cell_at_def del: set_simps)
  qed
  have rows3: "map (\<lambda>r. r @ [map_option (take 2) (cell_at r 0)]) (rows df3) = map F (rows df)"
    by (simp add: df3_def df2_def df1_def F_def o_def del: set_simps)
  have cols3: "columns df3 = COLUNAS"
    by (simp add: df3_def df2_def df1_def)
  have "snd (process_and_clean_data df) =
      Returns (df3\<lparr>columns := columns df3 @ [Name ''uf''],
           rows := map (\<lambda>r. r @ [map_option (take 2) (cell_at r 0)]) (rows df3)\<rparr>)"
    by (simp only: process_and_clean_data_def sc g1 s2 g2 s3 g3 s4 Let_def outcome.case snd_conv)
  also have "\<dots> = Returns \<lparr>columns = COLUNAS @ [Name ''uf''],
       rows = map (\<lambda>r. [r ! 0, ?esc (r ! 1), r ! 2, ?cl (r ! 3), map_option (take 2) (r ! 0)]) (rows df)\<rparr>"
    unfolding rows3 cols3 using row by (simp add: df3_def df2_def df1_def del: set_simps cong: map_cong)
  finally show ?thesis .
qed


lemma process_columns:
  assumes "snd (process_and_clean_data df) = Returns out"
  shows "length (columns df) = 4"
proof (rule ccontr)
  assume "length (columns df) \<noteq> 4"
  then have "set_columns df COLUNAS = Raises (ValueError ''Length mismatch'')"
    by (auto simp add: set_columns_def COLUNAS_def)
  then have "snd (process_and_clean_data df) = Raises (ValueError ''Length mismatch'')"
    by (simp add: process_and_clean_data_def)
  with assms show False by simp
qed

lemma process_raises:
  "length (columns df) \<noteq> 4 \<Longrightarrow>
   process_and_clean_data df = ([Log INFO Aplicando], Raises (ValueError ''Length mismatch''))"
  by (auto simp add: process_and_clean_data_def set_columns_def COLUNAS_def)

lemma col_pos_out:
  "col_pos (Name ''cod_aj_apur'') (COLUNAS @ [Name ''uf'']) = Some 0"
  "col_pos (Name ''data_fim'') (COLUNAS @ [Name ''uf'']) = Some 3"
  "col_pos (Name ''uf'') (COLUNAS @ [Name ''uf'']) = Some 4"
  by (simp_all add: COLUNAS_def)

lemma getitem_out:
  "col_pos l cs = Some j \<Longrightarrow>
   getitem \<lparr>columns = cs, rows = map f rs\<rparr> l = Returns (map (\<lambda>r. cell_at (f r) j) rs)"
  by (simp add: getitem_def o_def)

lemma wf_raw_example: "wf_frame raw_example"
  by (simp add: wf_frame_def raw_example_def)

lemma process_raw_example: "snd (process_and_clean_data raw_example) = Returns normalized_example"
proof -
  have "length (columns raw_example) = 4" by (simp add: raw_example_def)
  from process_rows [OF this wf_raw_example] show ?thesis
    by (simp add: raw_example_def normalized_example_def py_replace_char DEFAULT_DATA_FIM_def)
qed

text \<open>
  C1. In the table returned by \<open>process_and_clean_data\<close>, the \<open>data_fim\<close> cell of every row
  is a non-empty text: it is \<open>31129999\<close> when the input cell (fourth column) is missing (NaN),
  the empty text, \<open>nan\<close> or \<open>NaN\<close>, and the input cell unchanged otherwise.
\<close>

theorem data_fim_never_empty:
  assumes ok: "snd (process_and_clean_data df) = Returns out"
    and wf: "wf_frame df" and i: "i < length (rows df)"
  shows "\<exists>fim. getitem out (Name ''data_fim'') = Returns fim \<and> length fim = length (rows df) \<and>
     fim ! i \<noteq> None \<and> fim ! i \<noteq> Some [] \<and>
     (cell_at (rows df ! i) 3 \<in> {None, Some [], Some ''nan'', Some ''NaN''}
        \<longrightarrow> fim ! i = Some ''31129999'') \<and>
     (cell_at (rows df ! i) 3 \<notin> {None, Some [], Some ''nan'', Some ''NaN''}
        \<longrightarrow> fim ! i = cell_at (rows df ! i) 3)"
proof -
  have c4: "length (columns df) = 4" using ok by (rule process_columns)
  have len: "length (rows df ! i) = 4"
    using wf c4 i by (simp add: wf_frame_def list_all_length)
  then obtain a b c d where r: "rows df ! i = [a, b, c, d]" using length4 by blast
  let ?n = "\<lambda>r. [r ! 0, map_option (py_replace [CHR 0x27] [CHR 0x27, CHR 0x27]) (r ! 1), r ! 2,
            (case r ! 3 of None \<Rightarrow> Some DEFAULT_DATA_FIM
               | Some x \<Rightarrow> if x \<in> set [''nan'', ''NaN'', ''''] then Some DEFAULT_DATA_FIM else Some x),
            map_option (take 2) (r ! 0)]"
  have out: "out = \<lparr>columns = COLUNAS @ [Name ''uf''], rows = map ?n (rows df)\<rparr>"
    using process_rows [OF c4 wf] ok by simp
  define fim where "fim = map (\<lambda>r. cell_at (?n r) 3) (rows df)"
  have g: "getitem out (Name ''data_fim'') = Returns fim"
    unfolding out fim_def by (rule getitem_out) (rule col_pos_out)
  have v: "fim ! i = (case d of None \<Rightarrow> Some ''31129999''
               | Some x \<Rightarrow> if x = ''nan'' \<or> x = ''NaN'' \<or> x = [] then Some ''31129999'' else Some x)"
    using i r by (simp add: fim_def cell_at_def DEFAULT_DATA_FIM_def split: option.splits)
  have x: "cell_at (rows df ! i) 3 = d" using r by (simp add: cell_at_def)
  have l: "length fim = length (rows df)" by (simp add: fim_def)
  have "fim ! i \<noteq> None \<and> fim ! i \<noteq> Some [] \<and>
     (d \<in> {None, Some [], Some ''nan'', Some ''NaN''} \<longrightarrow> fim ! i = Some ''31129999'') \<and>
     (d \<notin> {None, Some [], Some ''nan'', Some ''NaN''} \<longrightarrow> fim ! i = d)"
    unfolding v by (cases d) auto
  with g l x show ?thesis by blast
qed

theorem data_fim_never_empty_witness:
  "snd (process_and_clean_data raw_example) = Returns normalized_example \<and> wf_frame raw_example \<and>
   (\<exists>fim. getitem normalized_example (Name ''data_fim'') = Returns fim \<and> fim ! 0 = Some ''31129999''
       \<and> fim ! 1 = Some ''31122030'')"
proof -
  have i0: "0 < length (rows raw_example)" and i1: "1 < length (rows raw_example)"
    by (simp_all add: raw_example_def)
  from data_fim_never_empty [OF process_raw_example wf_raw_example i0]
       data_fim_never_empty [OF process_raw_example wf_raw_example i1]
  show ?thesis
    using process_raw_example wf_raw_example
    by (auto simp add: raw_example_def cell_at_def)
qed


text \<open>
  C9. In the table returned by \<open>process_and_clean_data\<close>, the \<open>cod_aj_apur\<close> cell of every
  row is the input's first cell, and the \<open>uf\<close> cell is its first two characters: the whole
  code when it has fewer than two characters, and NaN when the code is NaN.
\<close>

theorem uf_is_code_prefix:
  assumes ok: "snd (process_and_clean_data df) = Returns out"
    and wf: "wf_frame df" and i: "i < length (rows df)"
  shows "\<exists>cod uf. getitem out (Name ''cod_aj_apur'') = Returns cod \<and>
     getitem out (Name ''uf'') = Returns uf \<and>
     length cod = length (rows df) \<and> length uf = length (rows df) \<and>
     cod ! i = cell_at (rows df ! i) 0 \<and>
     (cod ! i = None \<longrightarrow> uf ! i = None) \<and>
     (\<forall>s. cod ! i = Some s \<longrightarrow> uf ! i = Some (take 2 s)) \<and>
     (\<forall>s. cod ! i = Some s \<and> length s < 2 \<longrightarrow> uf ! i = Some s)"
proof -
  have c4: "length (columns df) = 4" using ok by (rule process_columns)
  have len: "length (rows df ! i) = 4"
    using wf c4 i by (simp add: wf_frame_def list_all_length)
  then obtain a b c d where r: "rows df ! i = [a, b, c, d]" using length4 by blast
  let ?n = "\<lambda>r. [r ! 0, map_option (py_replace [CHR 0x27] [CHR 0x27, CHR 0x27]) (r ! 1), r ! 2,
            (case r ! 3 of None \<Rightarrow> Some DEFAULT_DATA_FIM
               | Some x \<Rightarrow> if x \<in> set [''nan'', ''NaN'', ''''] then Some DEFAULT_DATA_FIM else Some x),
            map_option (take 2) (r ! 0)]"
  have out: "out = \<lparr>columns = COLUNAS @ [Name ''uf''], rows = map ?n (rows df)\<rparr>"
    using process_rows [OF c4 wf] ok by simp
  define cod where "cod = map (\<lambda>r. cell_at (?n r) 0) (rows df)"
  define uf where "uf = map (\<lambda>r. cell_at (?n r) 4) (rows df)"
  have g0: "getitem out (Name ''cod_aj_apur'') = Returns cod"
    unfolding out cod_def by (rule getitem_out) (rule col_pos_out)
  have g4: "getitem out (Name ''uf'') = Returns uf"
    unfolding out uf_def by (rule getitem_out) (rule col_pos_out)
  have v0: "cod ! i = a" using i r by (simp add: cod_def cell_at_def)
  have v4: "uf ! i = map_option (take 2) a" using i r by (simp add: uf_def cell_at_def)
  have x: "cell_at (rows df ! i) 0 = a" using r by (simp add: cell_at_def)
  have l: "length cod = length (rows df)" "length uf = length (rows df)"
    by (simp_all add: cod_def uf_def)
  have k: "(cod ! i = None \<longrightarrow> uf ! i = None) \<and>
     (\<forall>s. cod ! i = Some s \<longrightarrow> uf ! i = Some (take 2 s)) \<and>
     (\<forall>s. cod ! i = Some s \<and> length s < 2 \<longrightarrow> uf ! i = Some s)"
    unfolding v0 v4 by (cases a) auto
  show ?thesis
    by (rule exI [where x = cod], rule exI [where x = uf]) (simp add: g0 g4 l x v0 k)
qed

theorem uf_is_code_prefix_witness:
  "snd (process_and_clean_data raw_example) = Returns normalized_example \<and> wf_frame raw_example \<and>
   (\<exists>cod uf. getitem normalized_example (Name ''cod_aj_apur'') = Returns cod \<and>
       getitem normalized_example (Name ''uf'') = Returns uf \<and>
       cod ! 0 = Some ''BA000001'' \<and> uf ! 0 = Some ''BA'' \<and> cod ! 1 = Some ''B'' \<and> uf ! 1 = Some ''B'')"
proof -
  have i0: "0 < length (rows raw_example)" and i1: "1 < length (rows raw_example)"
    by (simp_all add: raw_example_def)
  from uf_is_code_prefix [OF process_raw_example wf_raw_example i0]
       uf_is_code_prefix [OF process_raw_example wf_raw_example i1]
  show ?thesis
    using process_raw_example wf_raw_example
    by (auto simp add: raw_example_def cell_at_def)
qed

lemma process_normalized_example:
  "snd (process_and_clean_data normalized_example) = Raises (ValueError ''Length mismatch'')"
  by (simp add: process_raises normalized_example_def COLUNAS_def)

lemma clean_fim_idem:
  "replace_values (fillna (replace_values (fillna s v) olds v) v) olds v =
   replace_values (fillna s v) olds v"
  by (induction s) (auto simp add: replace_values_def fillna_def split: option.splits)

lemma str_slice_to_idem: "str_slice_to (str_slice_to s n) n = str_slice_to s n"
  by (induction s) (auto simp add: str_slice_to_def option.map_comp o_def)

text \<open>
  C4, as stated: applying the normalisation to its own output gives the same output. It
  fails on the two-row example: the second application raises, because the output has five
  columns, and escaping the description again doubles its quotes again.
\<close>

theorem normalizer_idempotent_counterexample:
  "snd (process_and_clean_data raw_example) = Returns normalized_example \<and>
   snd (process_and_clean_data normalized_example) = Raises (ValueError ''Length mismatch'') \<and>
   str_replace (str_replace [Some [CHR ''d'', CHR 0x27, CHR ''a'']] [CHR 0x27] [CHR 0x27, CHR 0x27])
       [CHR 0x27] [CHR 0x27, CHR 0x27]
     \<noteq> str_replace [Some [CHR ''d'', CHR 0x27, CHR ''a'']] [CHR 0x27] [CHR 0x27, CHR 0x27]"
  by (simp add: process_raw_example process_normalized_example str_replace_def py_replace_char)

text \<open>
  C4, amended. On a raw table of four columns the normalisation returns a table of five
  columns with the same number of rows, and applied to that table it raises ValueError.
  Of its three steps, the cleaning of \<open>data_fim\<close> and the derivation of \<open>uf\<close> give the same
  series when applied to their own result.
\<close>

theorem normalizer_applies_once:
  assumes c4: "length (columns df) = 4" and wf: "wf_frame df"
  shows "(\<exists>out. snd (process_and_clean_data df) = Returns out \<and>
       columns out = COLUNAS @ [Name ''uf''] \<and> length (rows out) = length (rows df) \<and>
       snd (process_and_clean_data out) = Raises (ValueError ''Length mismatch'')) \<and>
     replace_values (fillna (replace_values (fillna s DEFAULT_DATA_FIM) [''nan'', ''NaN'', []]
              DEFAULT_DATA_FIM) DEFAULT_DATA_FIM) [''nan'', ''NaN'', []] DEFAULT_DATA_FIM =
         replace_values (fillna s DEFAULT_DATA_FIM) [''nan'', ''NaN'', []] DEFAULT_DATA_FIM \<and>
     str_slice_to (str_slice_to s 2) 2 = str_slice_to s 2"
proof -
  let ?n = "\<lambda>r. [r ! 0, map_option (py_replace [CHR 0x27] [CHR 0x27, CHR 0x27]) (r ! 1), r ! 2,
            (case r ! 3 of None \<Rightarrow> Some DEFAULT_DATA_FIM
               | Some x \<Rightarrow> if x \<in> set [''nan'', ''NaN'', []] then Some DEFAULT_DATA_FIM else Some x),
            map_option (take 2) (r ! 0)]"
  define out where "out = \<lparr>columns = COLUNAS @ [Name ''uf''], rows = map ?n (rows df)\<rparr>"
  have 1: "snd (process_and_clean_data df) = Returns out"
    unfolding out_def by (rule process_rows [OF c4 wf])
  have "length (columns out) \<noteq> 4" by (simp add: out_def COLUNAS_def)
  from process_raises [OF this]
  have 2: "snd (process_and_clean_data out) = Raises (ValueError ''Length mismatch'')"
    by simp
  have 3: "columns out = COLUNAS @ [Name ''uf'']" "length (rows out) = length (rows df)"
    by (simp_all add: out_def)
  from 1 2 3 clean_fim_idem str_slice_to_idem show ?thesis by blast
qed

theorem normalizer_applies_once_witness:
  "length (columns raw_example) = 4 \<and> wf_frame raw_example \<and>
   (\<exists>out. snd (process_and_clean_data raw_example) = Returns out \<and>
       length (rows out) = 2 \<and>
       snd (process_and_clean_data out) = Raises (ValueError ''Length mismatch''))"
proof -
  have c: "length (columns raw_example) = 4" by (simp add: raw_example_def)
  from normalizer_applies_once [OF c wf_raw_example, where s = "[]"] show ?thesis
    using c wf_raw_example by (auto simp add: raw_example_def)
qed


section \<open>The fetcher\<close>

lemma fetch_skip:
  "dict_get estado ''idTabela'' = PNone \<Longrightarrow>
   fetch_state_data w estado =
     ([Log WARNING (Ignorando (dict_get_default estado ''UF'' (PStr ''Desconhecido'')))], Returns None)"
  by (simp add: fetch_state_data_def Let_def)

lemma fetch_KeyError:
  "dict_get estado ''idTabela'' \<noteq> PNone \<Longrightarrow> map_of estado ''idPacote'' = None \<Longrightarrow>
   fetch_state_data w estado = ([], Raises (KeyError ''idPacote''))"
  by (simp add: fetch_state_data_def Let_def dict_index_def)

lemma fetch_except_cases:
  "fetch_except uf e = Log ERROR (ErroRede uf e) \<or> fetch_except uf e = Log ERROR (ErroParsing uf e) \<or>
   fetch_except uf e = Log ERROR (ErroInesperado uf e)"
  by (cases e) (simp_all add: fetch_except_def)

lemma fetch_returns:
  assumes "map_of estado ''idPacote'' \<noteq> None"
  shows "\<exists>t r. fetch_state_data w estado = (t, Returns r)"
  using assms
  by (auto simp add: fetch_state_data_def Let_def dict_index_def
      split: outcome.splits option.splits)

lemma fetch_trace_events:
  "ev \<in> set (fst (fetch_state_data w estado)) \<Longrightarrow> is_Log ev \<or> is_HttpGet ev"
  by (auto simp add: fetch_state_data_def Let_def fetch_except_def
      split: outcome.splits option.splits if_splits pyexn.splits)

text \<open>
  C8. A region whose \<open>idTabela\<close> is absent (the key is missing or its value is None) is
  skipped at once, whatever the world: the fetcher logs one warning and returns None, sends
  no request, logs no network error, and the region adds no table to the aggregate.
\<close>

theorem skipped_region_no_request:
  assumes "dict_get estado ''idTabela'' = PNone"
  shows "fetch_state_data w estado =
       ([Log WARNING (Ignorando (dict_get_default estado ''UF'' (PStr ''Desconhecido'')))],
        Returns None) \<and>
     \<not> list_ex is_HttpGet (fst (fetch_state_data w estado)) \<and>
     (\<forall>uf e. Log ERROR (ErroRede uf e) \<notin> set (fst (fetch_state_data w estado))) \<and>
     snd (executor_map (fetch_state_data w) [estado]) = Returns [None] \<and>
     concat (map rows (all_dfs_of [None])) = []"
  using fetch_skip [OF assms, of w] by (simp add: all_dfs_of_def)

theorem skipped_region_no_request_witness:
  "dict_get (catalogue_example ! 1) ''idTabela'' = PNone \<and>
   fetch_state_data world_example (catalogue_example ! 1) =
     ([Log WARNING (Ignorando (PStr ''Roraima''))], Returns None)"
proof -
  have h: "dict_get (catalogue_example ! 1) ''idTabela'' = PNone"
    by (simp add: catalogue_example_def dict_get_def)
  from skipped_region_no_request [OF h, of world_example] show ?thesis
    using h by (simp add: catalogue_example_def dict_get_default_def)
qed

text \<open>
  C5. For a region descriptor (a dictionary with a package id), the fetcher returns in
  every world: either a parsed table, after logging the success, or None, after logging the
  cause as a warning (skipped, blank body) or as an error (network, parsing, unexpected).
\<close>

theorem fetch_never_raises:
  assumes "map_of estado ''idPacote'' \<noteq> None"
  shows "\<exists>t r. fetch_state_data w estado = (t, Returns r) \<and> t \<noteq> [] \<and>
     (let uf = dict_get_default estado ''UF'' (PStr ''Desconhecido'')
      in case r of
           Some df \<Rightarrow> last t = Log INFO (SucessoProcessar uf)
         | None \<Rightarrow>
             last t = Log WARNING (Ignorando uf) \<or> last t = Log WARNING (RespostaVazia uf) \<or>
             (\<exists>e. last t = Log ERROR (ErroRede uf e) \<or> last t = Log ERROR (ErroParsing uf e) \<or>
                  last t = Log ERROR (ErroInesperado uf e)))"
  using assms fetch_except_cases
  by (auto simp add: fetch_state_data_def Let_def dict_index_def
      split: outcome.splits option.splits)

theorem fetch_never_raises_witness:
  "map_of (catalogue_example ! 0) ''idPacote'' \<noteq> None \<and>
   fetch_state_data world_example (catalogue_example ! 0) =
     ([HttpGet BASE_URL [(''idTabela'', PInt 190), (''idPacote'', PInt 11)] REQUEST_TIMEOUT,
       Log INFO (SucessoProcessar (PStr ''Bahia''))], Returns (Some raw_example)) \<and>
   fetch_state_data world_offline (catalogue_example ! 0) =
     ([HttpGet BASE_URL [(''idTabela'', PInt 190), (''idPacote'', PInt 11)] REQUEST_TIMEOUT,
       Log ERROR (ErroRede (PStr ''Bahia'') (RequestException ''down'' None))], Returns None)"
proof -
  have h: "map_of (catalogue_example ! 0) ''idPacote'' \<noteq> None"
    by (simp add: catalogue_example_def)
  from fetch_never_raises [OF h, of world_example] fetch_never_raises [OF h, of world_offline]
  show ?thesis
    using h
    by (simp add: catalogue_example_def fetch_state_data_def dict_get_def dict_get_default_def
        dict_index_def world_example_def world_offline_def raise_for_status_def fetch_except_def
        py_strip_def py_isspace_def Let_def)
qed


section \<open>The run\<close>

lemma executor_map_returns:
  "\<forall>e\<in>set cat. snd (f e) = Returns (g e) \<Longrightarrow>
   executor_map f cat = (concat (map (\<lambda>e. fst (f e)) cat), Returns (map g cat))"
proof (induction cat)
  case Nil
  show ?case by simp
next
  case (Cons e es)
  then have es: "executor_map f es = (concat (map (\<lambda>e. fst (f e)) es), Returns (map g es))"
    by simp
  from Cons.prems have "snd (f e) = Returns (g e)" by simp
  then have e: "f e = (fst (f e), Returns (g e))" by (metis prod.collapse)
  show ?case by (subst executor_map.simps, subst e) (simp add: es)
qed

lemma fetch_all_returns:
  assumes "\<forall>e\<in>set cat. map_of e ''idPacote'' \<noteq> None"
  shows "executor_map (fetch_state_data w) cat =
     (concat (map (\<lambda>e. fst (fetch_state_data w e)) cat),
      Returns (map (\<lambda>e. case snd (fetch_state_data w e) of Raises x \<Rightarrow> None | Returns r \<Rightarrow> r) cat))"
proof (rule executor_map_returns, rule ballI)
  fix e assume "e \<in> set cat"
  with assms have "map_of e ''idPacote'' \<noteq> None" by simp
  from fetch_returns [OF this, of w] obtain t r where "fetch_state_data w e = (t, Returns r)"
    by blast
  then show "snd (fetch_state_data w e) =
      Returns (case snd (fetch_state_data w e) of Raises x \<Rightarrow> None | Returns r \<Rightarrow> r)"
    by simp
qed

lemma executor_map_trace:
  "ev \<in> set (fst (executor_map (fetch_state_data w) cat)) \<Longrightarrow> is_Log ev \<or> is_HttpGet ev"
proof (induction cat)
  case Nil
  then show ?case by simp
next
  case (Cons e es)
  then show ?case
    using fetch_trace_events [of ev w e]
    by (auto split: prod.splits outcome.splits)
qed

lemma all_dfs_of_region_tables:
  "all_dfs_of (map (\<lambda>e. case snd (fetch_state_data w e) of Raises x \<Rightarrow> None | Returns r \<Rightarrow> r) cat) =
   region_tables w cat"
  by (induction cat)
     (auto simp add: all_dfs_of_def region_tables_def split: outcome.splits option.splits)


lemma region_tables_nonempty: "d \<in> set (region_tables w cat) \<Longrightarrow> \<not> df_empty d"
  by (auto simp add: region_tables_def split: outcome.splits option.splits if_splits)

lemma region_tables_Nil:
  "\<forall>e\<in>set cat. \<forall>d. snd (fetch_state_data w e) = Returns (Some d) \<longrightarrow> df_empty d \<Longrightarrow>
   region_tables w cat = []"
  by (induction cat) (auto simp add: region_tables_def split: outcome.splits option.splits)

lemma process_trace: "fst (process_and_clean_data df) = [Log INFO Aplicando]"
  by (simp add: process_and_clean_data_def)

lemma process_length:
  "snd (process_and_clean_data df) = Returns out \<Longrightarrow> length (rows out) = length (rows df)"
  by (auto simp add: process_and_clean_data_def set_columns_def getitem_def setitem_def Let_def
        fillna_def replace_values_def str_replace_def str_slice_to_def
      split: outcome.splits option.splits if_splits)

lemma process_out_columns:
  "snd (process_and_clean_data df) = Returns out \<Longrightarrow> columns out = COLUNAS @ [Name ''uf'']"
  by (auto simp add: process_and_clean_data_def set_columns_def getitem_def setitem_def Let_def
        col_pos_COLUNAS
      split: outcome.splits option.splits if_splits)

lemma concat_frames_length:
  "length (rows (concat_frames dfs)) = sum_list (map (\<lambda>d. length (rows d)) dfs)"
  by (simp add: concat_frames_def Let_def length_concat o_def)

lemma enviar_empty:
  "df_empty df \<Longrightarrow> enviar_dados_para_api w df = ([Log WARNING DataFrameVazio], Returns ())"
  by (simp add: enviar_dados_para_api_def)

lemma post_except_logs: "post_except e = (t, r) \<Longrightarrow> list_all is_Log t"
  by (cases e) (auto simp add: post_except_def split: option.splits)

lemma enviar_shape:
  assumes "\<not> df_empty df"
  shows "\<exists>logs. fst (enviar_dados_para_api w df) =
       Log INFO (PreparandoEnvio (length (rows df)) API_URL) #
       HttpPost API_URL (to_dict_records df) 120 # logs \<and> list_all is_Log logs"
  using assms post_except_logs
  by (auto simp add: enviar_dados_para_api_def Let_def split: outcome.splits prod.splits)

lemma enviar_http_error:
  assumes "\<not> df_empty df"
    and "requests_post w API_URL (to_dict_records df) 120 = Returns resp"
    and "400 \<le> status_code resp" and "status_code resp < 600"
  shows "enviar_dados_para_api w df =
     ([Log INFO (PreparandoEnvio (length (rows df)) API_URL),
       HttpPost API_URL (to_dict_records df) 120,
       Log ERROR (ErroEnvio (RequestException ''HTTPError'' (Some (resp_text resp)))),
       Log ERROR (DetalhesResposta (resp_text resp))], Returns ())"
  using assms
  by (simp add: enviar_dados_para_api_def Let_def raise_for_status_def post_except_def)

text \<open>The run, once the fetches have returned.\<close>

lemma main_on_run:
  assumes "executor_map (fetch_state_data w) cat = (t1, Returns rs)"
  shows "main_on w cat =
     (if all_dfs_of rs = [] then (Log INFO Iniciando # t1 @ [Log WARNING NenhumDado], Returns ())
      else
       (case snd (process_and_clean_data (concat_frames (all_dfs_of rs))) of
          Raises e \<Rightarrow> (Log INFO Iniciando # t1 @ [Log INFO Consolidando, Log INFO Aplicando], Raises e)
        | Returns df \<Rightarrow>
         (case to_csv w df OUTPUT_FILENAME of
            Raises e \<Rightarrow>
              (Log INFO Iniciando # t1 @
                 [Log INFO Consolidando, Log INFO Aplicando, ToCsv OUTPUT_FILENAME df], Raises e)
          | Returns u \<Rightarrow>
              (Log INFO Iniciando # t1 @
                 [Log INFO Consolidando, Log INFO Aplicando, ToCsv OUTPUT_FILENAME df,
                  Log INFO (ArquivoSalvo OUTPUT_FILENAME)] @
                 fst (enviar_dados_para_api w df) @
                 (case snd (enviar_dados_para_api w df) of Raises e \<Rightarrow> [] | Returns u \<Rightarrow> [Log INFO Concluido]),
               snd (enviar_dados_para_api w df)))))"
proof -
  have p: "process_and_clean_data d = ([Log INFO Aplicando], snd (process_and_clean_data d))" for d
    by (simp add: process_and_clean_data_def)
  show ?thesis
    unfolding main_on_def assms
    by (subst p) (auto simp add: Let_def split: outcome.splits prod.splits)
qed


lemma fetch_trace_not_normalizing:
  "Log INFO Aplicando \<notin> set (fst (fetch_state_data w estado))"
  by (auto simp add: fetch_state_data_def Let_def fetch_except_def
      split: outcome.splits option.splits if_splits pyexn.splits)

lemma executor_map_not_normalizing:
  "Log INFO Aplicando \<notin> set (fst (executor_map (fetch_state_data w) cat))"
proof (induction cat)
  case Nil
  show ?case by simp
next
  case (Cons e es)
  then show ?case
    using fetch_trace_not_normalizing [of w e]
    by (auto split: prod.splits outcome.splits)
qed

lemma enviar_trace_events:
  "ev \<in> set (fst (enviar_dados_para_api w df)) \<Longrightarrow> is_Log ev \<or> is_HttpPost ev"
proof (cases "df_empty df")
  case True
  assume "ev \<in> set (fst (enviar_dados_para_api w df))"
  with True show ?thesis by (simp add: enviar_empty)
next
  case False
  assume ev: "ev \<in> set (fst (enviar_dados_para_api w df))"
  from enviar_shape [OF False, of w] obtain logs where
    "fst (enviar_dados_para_api w df) =
       Log INFO (PreparandoEnvio (length (rows df)) API_URL) #
       HttpPost API_URL (to_dict_records df) 120 # logs" "list_all is_Log logs"
    by blast
  with ev show ?thesis by (auto simp add: list_all_iff)
qed

text \<open>A snapshot event in the trace of a run tells how the run went up to it.\<close>

lemma main_on_snapshot:
  assumes "ToCsv f df \<in> set (fst (main_on w cat))"
  shows "\<exists>t1 rs. executor_map (fetch_state_data w) cat = (t1, Returns rs) \<and>
     all_dfs_of rs \<noteq> [] \<and>
     snd (process_and_clean_data (concat_frames (all_dfs_of rs))) = Returns df \<and>
     f = OUTPUT_FILENAME"
proof -
  obtain t1 r where ex: "executor_map (fetch_state_data w) cat = (t1, r)"
    by (cases "executor_map (fetch_state_data w) cat")
  have t1: "ToCsv f df \<notin> set t1"
    using executor_map_trace [of "ToCsv f df" w cat] ex by auto
  show ?thesis
  proof (cases r)
    case (Raises x)
    with ex assms t1 show ?thesis by (simp add: main_on_def)
  next
    case (Returns rs)
    note run = main_on_run [OF ex [unfolded Returns]]
    have env: "ToCsv f df \<notin> set (fst (enviar_dados_para_api w d))" for d
      using enviar_trace_events [of "ToCsv f df" w d] by auto
    from assms t1 env have "all_dfs_of rs \<noteq> [] \<and>
        snd (process_and_clean_data (concat_frames (all_dfs_of rs))) = Returns df \<and>
        f = OUTPUT_FILENAME"
      unfolding run
      by (auto split: if_splits outcome.splits)
    with ex Returns show ?thesis by simp
  qed
qed

text \<open>
  C2. When every region of the catalogue is skipped, fails or yields an empty table, the run
  returns after the warning that nothing was downloaded: the normaliser is not entered, no
  snapshot is written and no POST is sent.
\<close>

theorem no_data_halts:
  assumes keys: "\<forall>e\<in>set cat. map_of e ''idPacote'' \<noteq> None"
    and none: "\<forall>e\<in>set cat. \<forall>d. snd (fetch_state_data w e) = Returns (Some d) \<longrightarrow> df_empty d"
  shows "\<exists>t. main_on w cat = (t, Returns ()) \<and> last t = Log WARNING NenhumDado \<and>
     Log INFO Aplicando \<notin> set t \<and> \<not> list_ex is_ToCsv t \<and> \<not> list_ex is_HttpPost t"
proof -
  let ?t1 = "concat (map (\<lambda>e. fst (fetch_state_data w e)) cat)"
  let ?rs = "map (\<lambda>e. case snd (fetch_state_data w e) of Raises x \<Rightarrow> None | Returns r \<Rightarrow> r) cat"
  have ex: "executor_map (fetch_state_data w) cat = (?t1, Returns ?rs)"
    by (rule fetch_all_returns [OF keys])
  have "all_dfs_of ?rs = []"
    by (simp only: all_dfs_of_region_tables region_tables_Nil [OF none])
  with main_on_run [OF ex]
  have run: "main_on w cat = (Log INFO Iniciando # ?t1 @ [Log WARNING NenhumDado], Returns ())"
    by simp
  have ev: "is_Log ev \<or> is_HttpGet ev" if "ev \<in> set ?t1" for ev
    using executor_map_trace [of ev w cat] that ex by simp
  have ap: "Log INFO Aplicando \<notin> set ?t1"
    using executor_map_not_normalizing [of w cat] ex by simp
  have "\<not> list_ex is_ToCsv ?t1" "\<not> list_ex is_HttpPost ?t1"
    using ev by (auto simp add: list_ex_iff)
  with ap show ?thesis
    unfolding run by simp
qed

lemma offline_fetch:
  "snd (fetch_state_data world_offline e) \<noteq> Returns (Some d)"
  by (auto simp add: fetch_state_data_def Let_def world_offline_def world_example_def
      split: outcome.splits)

lemma DADOS_ESTADUAIS_keys: "\<forall>e\<in>set DADOS_ESTADUAIS. map_of e ''idPacote'' \<noteq> None"
  by (simp add: DADOS_ESTADUAIS_def)

theorem no_data_halts_witness:
  "\<exists>t. main world_offline = (t, Returns ()) \<and> last t = Log WARNING NenhumDado \<and>
     \<not> list_ex is_ToCsv t \<and> \<not> list_ex is_HttpPost t"
proof -
  have none: "\<forall>e\<in>set DADOS_ESTADUAIS. \<forall>d.
      snd (fetch_state_data world_offline e) = Returns (Some d) \<longrightarrow> df_empty d"
    by (simp add: offline_fetch)
  from no_data_halts [OF DADOS_ESTADUAIS_keys none] show ?thesis
    unfolding main_def by blast
qed

lemma example_fetches:
  "fetch_state_data w (catalogue_example ! 1) =
     ([Log WARNING (Ignorando (PStr ''Roraima''))], Returns None)"
  "requests_get w = requests_get world_example \<Longrightarrow> read_csv w = read_csv world_example \<Longrightarrow>
   fetch_state_data w (catalogue_example ! 0) =
     ([HttpGet BASE_URL [(''idTabela'', PInt 190), (''idPacote'', PInt 11)] REQUEST_TIMEOUT,
       Log INFO (SucessoProcessar (PStr ''Bahia''))], Returns (Some raw_example))"
  "requests_get w = requests_get world_example \<Longrightarrow>
   fetch_state_data w (catalogue_example ! 2) =
     ([HttpGet BASE_URL [(''idTabela'', PInt 33), (''idPacote'', PInt 8)] REQUEST_TIMEOUT,
       Log WARNING (RespostaVazia (PStr ''Alagoas''))], Returns None)"
  by (simp_all add: catalogue_example_def fetch_state_data_def dict_get_def dict_get_default_def
        dict_index_def world_example_def raise_for_status_def py_strip_def py_isspace_def Let_def)

lemma example_executor_map:
  assumes "requests_get w = requests_get world_example" "read_csv w = read_csv world_example"
  shows "executor_map (fetch_state_data w) catalogue_example =
     ([HttpGet BASE_URL [(''idTabela'', PInt 190), (''idPacote'', PInt 11)] REQUEST_TIMEOUT,
       Log INFO (SucessoProcessar (PStr ''Bahia'')),
       Log WARNING (Ignorando (PStr ''Roraima'')),
       HttpGet BASE_URL [(''idTabela'', PInt 33), (''idPacote'', PInt 8)] REQUEST_TIMEOUT,
       Log WARNING (RespostaVazia (PStr ''Alagoas''))],
      Returns [Some raw_example, None, None])"
proof -
  have c: "catalogue_example =
      [catalogue_example ! 0, catalogue_example ! 1, catalogue_example ! 2]"
    by (simp add: catalogue_example_def)
  show ?thesis
    by (subst c) (simp add: example_fetches assms del: One_nat_def)
qed

lemma concat_single_raw_example: "concat_frames [raw_example] = raw_example"
  by (simp add: concat_frames_def union_cols_def reindex_row_def raw_example_def Let_def)

lemma example_all_dfs: "all_dfs_of [Some raw_example, None, None] = [raw_example]"
  by (simp add: all_dfs_of_def df_empty_def raw_example_def)

lemma normalized_example_not_empty: "\<not> df_empty normalized_example"
  by (simp add: df_empty_def normalized_example_def)

lemma main_disk_full:
  "main_on world_disk_full catalogue_example =
     ([Log INFO Iniciando,
       HttpGet BASE_URL [(''idTabela'', PInt 190), (''idPacote'', PInt 11)] REQUEST_TIMEOUT,
       Log INFO (SucessoProcessar (PStr ''Bahia'')),
       Log WARNING (Ignorando (PStr ''Roraima'')),
       HttpGet BASE_URL [(''idTabela'', PInt 33), (''idPacote'', PInt 8)] REQUEST_TIMEOUT,
       Log WARNING (RespostaVazia (PStr ''Alagoas'')),
       Log INFO Consolidando, Log INFO Aplicando,
       ToCsv OUTPUT_FILENAME normalized_example],
      Raises (OSError ''disk full''))"
proof -
  have "executor_map (fetch_state_data world_disk_full) catalogue_example =
     ([HttpGet BASE_URL [(''idTabela'', PInt 190), (''idPacote'', PInt 11)] REQUEST_TIMEOUT,
       Log INFO (SucessoProcessar (PStr ''Bahia'')),
       Log WARNING (Ignorando (PStr ''Roraima'')),
       HttpGet BASE_URL [(''idTabela'', PInt 33), (''idPacote'', PInt 8)] REQUEST_TIMEOUT,
       Log WARNING (RespostaVazia (PStr ''Alagoas''))],
      Returns [Some raw_example, None, None])"
    by (rule example_executor_map) (simp_all add: world_disk_full_def)
  from main_on_run [OF this] show ?thesis
    by (simp add: example_all_dfs concat_single_raw_example process_raw_example world_disk_full_def)
qed

lemma main_example:
  "main_on world_example catalogue_example =
     ([Log INFO Iniciando,
       HttpGet BASE_URL [(''idTabela'', PInt 190), (''idPacote'', PInt 11)] REQUEST_TIMEOUT,
       Log INFO (SucessoProcessar (PStr ''Bahia'')),
       Log WARNING (Ignorando (PStr ''Roraima'')),
       HttpGet BASE_URL [(''idTabela'', PInt 33), (''idPacote'', PInt 8)] REQUEST_TIMEOUT,
       Log WARNING (RespostaVazia (PStr ''Alagoas'')),
       Log INFO Consolidando, Log INFO Aplicando,
       ToCsv OUTPUT_FILENAME normalized_example,
       Log INFO (ArquivoSalvo OUTPUT_FILENAME),
       Log INFO (PreparandoEnvio 2 API_URL),
       HttpPost API_URL (to_dict_records normalized_example) 120,
       Log ERROR (ErroEnvio (RequestException ''HTTPError'' (Some ''boom''))),
       Log ERROR (DetalhesResposta ''boom''),
       Log INFO Concluido],
      Returns ())"
proof -
  have ex: "executor_map (fetch_state_data world_example) catalogue_example =
     ([HttpGet BASE_URL [(''idTabela'', PInt 190), (''idPacote'', PInt 11)] REQUEST_TIMEOUT,
       Log INFO (SucessoProcessar (PStr ''Bahia'')),
       Log WARNING (Ignorando (PStr ''Roraima'')),
       HttpGet BASE_URL [(''idTabela'', PInt 33), (''idPacote'', PInt 8)] REQUEST_TIMEOUT,
       Log WARNING (RespostaVazia (PStr ''Alagoas''))],
      Returns [Some raw_example, None, None])"
    by (rule example_executor_map) simp_all
  have post: "requests_post world_example API_URL (to_dict_records normalized_example) 120 =
      Returns (Response 500 ''boom'')"
    by (simp add: world_example_def)
  have en: "enviar_dados_para_api world_example normalized_example =
     ([Log INFO (PreparandoEnvio (length (rows normalized_example)) API_URL),
       HttpPost API_URL (to_dict_records normalized_example) 120,
       Log ERROR (ErroEnvio (RequestException ''HTTPError'' (Some ''boom''))),
       Log ERROR (DetalhesResposta ''boom'')], Returns ())"
    using enviar_http_error [OF normalized_example_not_empty post] by simp
  have w: "to_csv world_example normalized_example OUTPUT_FILENAME = Returns ()"
    by (simp add: world_example_def)
  have l: "length (rows normalized_example) = 2" by (simp add: normalized_example_def)
  from main_on_run [OF ex] show ?thesis
    by (simp add: example_all_dfs concat_single_raw_example process_raw_example w en l)
qed


lemma fetch_trace_not_saved:
  "Log INFO (ArquivoSalvo f) \<notin> set (fst (fetch_state_data w estado))"
  by (auto simp add: fetch_state_data_def Let_def fetch_except_def
      split: outcome.splits option.splits if_splits pyexn.splits)

lemma executor_map_not_saved:
  "Log INFO (ArquivoSalvo f) \<notin> set (fst (executor_map (fetch_state_data w) cat))"
proof (induction cat)
  case Nil
  show ?case by simp
next
  case (Cons e es)
  then show ?case
    using fetch_trace_not_saved [of f w e]
    by (auto split: prod.splits outcome.splits)
qed

text \<open>
  C3, as stated: when the snapshot write fails, the POST is still attempted and the failure
  is reported, not raised. It fails in the world whose file system refuses the snapshot: the
  run ends at the write with the exception, and its trace holds no POST.
\<close>

theorem snapshot_failure_counterexample:
  "to_csv world_disk_full normalized_example OUTPUT_FILENAME = Raises (OSError ''disk full'') \<and>
   ToCsv OUTPUT_FILENAME normalized_example \<in> set (fst (main_on world_disk_full catalogue_example)) \<and>
   \<not> list_ex is_HttpPost (fst (main_on world_disk_full catalogue_example)) \<and>
   snd (main_on world_disk_full catalogue_example) = Raises (OSError ''disk full'')"
proof -
  have "to_csv world_disk_full normalized_example OUTPUT_FILENAME = Raises (OSError ''disk full'')"
    by (simp add: world_disk_full_def)
  then show ?thesis by (simp add: main_disk_full)
qed

text \<open>
  C3, amended. When writing the snapshot raises, the exception leaves \<open>main\<close>: the write is
  the last event of the run, no POST is sent, and no record of the failure is logged.
\<close>

theorem snapshot_failure_aborts:
  assumes snap: "ToCsv f df \<in> set (fst (main_on w cat))"
    and fail: "to_csv w df f = Raises e"
  shows "snd (main_on w cat) = Raises e \<and> last (fst (main_on w cat)) = ToCsv f df \<and>
     \<not> list_ex is_HttpPost (fst (main_on w cat)) \<and>
     Log INFO (ArquivoSalvo f) \<notin> set (fst (main_on w cat))"
proof -
  from main_on_snapshot [OF snap] obtain t1 rs where
    ex: "executor_map (fetch_state_data w) cat = (t1, Returns rs)" and
    ne: "all_dfs_of rs \<noteq> []" and
    pr: "snd (process_and_clean_data (concat_frames (all_dfs_of rs))) = Returns df" and
    f: "f = OUTPUT_FILENAME"
    by blast
  have run: "main_on w cat =
      (Log INFO Iniciando # t1 @
         [Log INFO Consolidando, Log INFO Aplicando, ToCsv OUTPUT_FILENAME df], Raises e)"
    using main_on_run [OF ex] ne pr fail f by simp
  have ev: "is_Log ev \<or> is_HttpGet ev" if "ev \<in> set t1" for ev
    using executor_map_trace [of ev w cat] that ex by simp
  have "\<not> list_ex is_HttpPost t1" "Log INFO (ArquivoSalvo f) \<notin> set t1"
    using ev ex executor_map_not_saved [of f w cat] by (auto simp add: list_ex_iff)
  then show ?thesis unfolding run f by simp
qed

theorem snapshot_failure_aborts_witness:
  "ToCsv OUTPUT_FILENAME normalized_example \<in> set (fst (main_on world_disk_full catalogue_example)) \<and>
   to_csv world_disk_full normalized_example OUTPUT_FILENAME = Raises (OSError ''disk full'') \<and>
   snd (main_on world_disk_full catalogue_example) = Raises (OSError ''disk full'') \<and>
   last (fst (main_on world_disk_full catalogue_example)) = ToCsv OUTPUT_FILENAME normalized_example"
proof -
  have s: "ToCsv OUTPUT_FILENAME normalized_example
      \<in> set (fst (main_on world_disk_full catalogue_example))"
    by (simp add: main_disk_full)
  have f: "to_csv world_disk_full normalized_example OUTPUT_FILENAME = Raises (OSError ''disk full'')"
    by (simp add: world_disk_full_def)
  from snapshot_failure_aborts [OF s f] s f show ?thesis by simp
qed

text \<open>
  C7. A POST in the trace of a run is the only one, and it comes after the snapshot of the
  very table it carries, whose write returned, and after the record that the file was saved;
  only log records follow it. When the API answers it with a 4xx or 5xx status, the error and
  the answer's text are logged and the run still returns normally, ending with its closing
  record.
\<close>

theorem write_precedes_post:
  assumes post: "HttpPost url p tm \<in> set (fst (main_on w cat))"
  shows "\<exists>pre rest df. fst (main_on w cat) = pre @ HttpPost url p tm # rest \<and>
     ToCsv OUTPUT_FILENAME df \<in> set pre \<and> to_csv w df OUTPUT_FILENAME = Returns () \<and>
     Log INFO (ArquivoSalvo OUTPUT_FILENAME) \<in> set pre \<and>
     url = API_URL \<and> p = to_dict_records df \<and> tm = 120 \<and>
     \<not> list_ex is_HttpPost pre \<and> list_all is_Log rest \<and>
     (\<forall>resp. requests_post w url p tm = Returns resp \<and>
         400 \<le> status_code resp \<and> status_code resp < 600 \<longrightarrow>
         snd (main_on w cat) = Returns () \<and>
         rest = [Log ERROR (ErroEnvio (RequestException ''HTTPError'' (Some (resp_text resp)))),
                 Log ERROR (DetalhesResposta (resp_text resp)), Log INFO Concluido])"
proof -
  let ?P = "HttpPost url p tm"
  obtain t1 r where ex: "executor_map (fetch_state_data w) cat = (t1, r)"
    by (cases "executor_map (fetch_state_data w) cat")
  have ev: "is_Log ev \<or> is_HttpGet ev" if "ev \<in> set t1" for ev
    using executor_map_trace [of ev w cat] that ex by simp
  have t1: "?P \<notin> set t1" "\<not> list_ex is_HttpPost t1"
    using ev [of ?P] ev by (auto simp add: list_ex_iff)
  obtain rs where r: "r = Returns rs"
    using post t1 ex by (cases r) (auto simp add: main_on_def)
  note run = main_on_run [OF ex [unfolded r]]
  have ne: "all_dfs_of rs \<noteq> []"
    using post t1 unfolding run by (auto split: if_splits)
  obtain df where pr: "snd (process_and_clean_data (concat_frames (all_dfs_of rs))) = Returns df"
    using post t1 ne unfolding run
    by (cases "snd (process_and_clean_data (concat_frames (all_dfs_of rs)))") auto
  have wr: "to_csv w df OUTPUT_FILENAME = Returns ()"
    using post t1 ne pr unfolding run
    by (cases "to_csv w df OUTPUT_FILENAME") auto
  let ?pre = "Log INFO Iniciando # t1 @
      [Log INFO Consolidando, Log INFO Aplicando, ToCsv OUTPUT_FILENAME df,
       Log INFO (ArquivoSalvo OUTPUT_FILENAME)]"
  let ?fin = "case snd (enviar_dados_para_api w df) of Raises e \<Rightarrow> [] | Returns u \<Rightarrow> [Log INFO Concluido]"
  have run': "main_on w cat =
      (?pre @ fst (enviar_dados_para_api w df) @ ?fin, snd (enviar_dados_para_api w df))"
    using run ne pr wr by simp
  have fin: "list_all is_Log ?fin" by (simp split: outcome.splits)
  have "\<not> df_empty df"
  proof
    assume "df_empty df"
    from enviar_empty [OF this, of w] post t1 show False
      unfolding run' by auto
  qed
  note nonempty = this
  from enviar_shape [OF nonempty, of w] obtain logs where
    en: "fst (enviar_dados_para_api w df) =
       Log INFO (PreparandoEnvio (length (rows df)) API_URL) #
       HttpPost API_URL (to_dict_records df) 120 # logs" and logs: "list_all is_Log logs"
    by blast
  have same: "?P = HttpPost API_URL (to_dict_records df) 120"
    using post t1 logs fin unfolding run' en
    by (auto simp add: list_all_iff split: outcome.splits)
  then have u: "url = API_URL" "p = to_dict_records df" "tm = 120" by simp_all
  let ?pre2 = "?pre @ [Log INFO (PreparandoEnvio (length (rows df)) API_URL)]"
  have shape: "fst (main_on w cat) = ?pre2 @ ?P # (logs @ ?fin)"
    unfolding run' en same by simp
  have pre2: "\<not> list_ex is_HttpPost ?pre2" using t1 by simp
  have rest: "list_all is_Log (logs @ ?fin)" using logs fin by simp
  have err: "snd (main_on w cat) = Returns () \<and>
      logs @ ?fin = [Log ERROR (ErroEnvio (RequestException ''HTTPError'' (Some (resp_text resp)))),
                 Log ERROR (DetalhesResposta (resp_text resp)), Log INFO Concluido]"
    if "requests_post w url p tm = Returns resp" "400 \<le> status_code resp" "status_code resp < 600"
    for resp
  proof -
    from that have "requests_post w API_URL (to_dict_records df) 120 = Returns resp"
      by (simp add: u)
    from enviar_http_error [OF nonempty this that(2,3)] en show ?thesis
      unfolding run' by simp
  qed
  show ?thesis
    apply (rule exI [where x = ?pre2])
    apply (rule exI [where x = "logs @ ?fin"])
    apply (rule exI [where x = df])
    using shape wr u pre2 rest err
    apply (intro conjI)
             apply simp_all
    done
qed

theorem write_precedes_post_witness:
  "HttpPost API_URL (to_dict_records normalized_example) 120
     \<in> set (fst (main_on world_example catalogue_example)) \<and>
   requests_post world_example API_URL (to_dict_records normalized_example) 120 =
     Returns (Response 500 ''boom'') \<and>
   to_csv world_example normalized_example OUTPUT_FILENAME = Returns () \<and>
   snd (main_on world_example catalogue_example) = Returns () \<and>
   last (fst (main_on world_example catalogue_example)) = Log INFO Concluido"
proof -
  have p: "HttpPost API_URL (to_dict_records normalized_example) 120
     \<in> set (fst (main_on world_example catalogue_example))"
    by (simp add: main_example)
  have q: "requests_post world_example API_URL (to_dict_records normalized_example) 120 =
      Returns (Response 500 ''boom'')"
    and c: "to_csv world_example normalized_example OUTPUT_FILENAME = Returns ()"
    by (simp_all add: world_example_def)
  have r: "snd (main_on world_example catalogue_example) = Returns ()"
    "last (fst (main_on world_example catalogue_example)) = Log INFO Concluido"
    by (simp_all add: main_example)
  from write_precedes_post [OF p] p q c r show ?thesis by blast
qed


section \<open>The aggregate\<close>

lemma fetch_parsed:
  "snd (fetch_state_data w e) = Returns (Some d) \<Longrightarrow> \<exists>body. read_csv w body = Returns d"
  by (auto simp add: fetch_state_data_def Let_def
      split: outcome.splits option.splits if_splits)

lemma parsed_rows_fetch:
  assumes key: "map_of e ''idPacote'' \<noteq> None"
  shows "parsed_rows w e =
     (case snd (fetch_state_data w e) of
        Returns (Some d) \<Rightarrow> length (rows d)
      | _ \<Rightarrow> 0)"
  using key
  by (auto simp add: parsed_rows_def fetch_state_data_def Let_def dict_index_def dict_get_def
        raise_for_status_def
      split: outcome.splits option.splits)

lemma region_tables_rows:
  assumes keys: "\<forall>e\<in>set cat. map_of e ''idPacote'' \<noteq> None"
    and shape: "\<forall>body d. read_csv w body = Returns d \<longrightarrow> columns d = [] \<longrightarrow> rows d = []"
  shows "sum_list (map (\<lambda>d. length (rows d)) (region_tables w cat)) =
     sum_list (map (parsed_rows w) cat)"
  using keys
proof (induction cat)
  case Nil
  show ?case by (simp add: region_tables_def)
next
  case (Cons e es)
  have tl: "region_tables w (e # es) =
      (case snd (fetch_state_data w e) of
         Returns (Some d) \<Rightarrow> if df_empty d then [] else [d]
       | _ \<Rightarrow> []) @ region_tables w es"
    by (simp add: region_tables_def)
  have key: "map_of e ''idPacote'' \<noteq> None" using Cons.prems by simp
  have hd: "sum_list (map (\<lambda>d. length (rows d))
        (case snd (fetch_state_data w e) of
           Returns (Some d) \<Rightarrow> if df_empty d then [] else [d]
         | _ \<Rightarrow> [])) = parsed_rows w e"
  proof (cases "snd (fetch_state_data w e)")
    case (Raises x)
    then show ?thesis by (simp add: parsed_rows_fetch [OF key])
  next
    case (Returns r)
    show ?thesis
    proof (cases r)
      case None
      with Returns show ?thesis by (simp add: parsed_rows_fetch [OF key])
    next
      case (Some d)
      with Returns have "snd (fetch_state_data w e) = Returns (Some d)" by simp
      from fetch_parsed [OF this] shape have "columns d = [] \<longrightarrow> rows d = []" by blast
      then have "df_empty d \<longrightarrow> length (rows d) = 0" by (auto simp add: df_empty_def)
      with Returns Some show ?thesis by (simp add: parsed_rows_fetch [OF key])
    qed
  qed
  from Cons have "sum_list (map (\<lambda>d. length (rows d)) (region_tables w es)) =
      sum_list (map (parsed_rows w) es)"
    by simp
  with hd show ?case unfolding tl by simp
qed

text \<open>
  C6. When a run reaches the snapshot, the table it writes has as many rows as the regions
  of the catalogue had rows parsed, summed over the catalogue; a region without
  \<open>idTabela\<close>, or whose fetch returned None, counts for no row, and no fetch ends the run.
  The parser is assumed to return no table with rows and no column.
\<close>

theorem final_row_count:
  assumes keys: "\<forall>e\<in>set cat. map_of e ''idPacote'' \<noteq> None"
    and shape: "\<forall>body d. read_csv w body = Returns d \<longrightarrow> columns d = [] \<longrightarrow> rows d = []"
    and snap: "ToCsv f df \<in> set (fst (main_on w cat))"
  shows "length (rows df) = sum_list (map (parsed_rows w) cat) \<and>
     (\<forall>e\<in>set cat. dict_get e ''idTabela'' = PNone \<or> snd (fetch_state_data w e) = Returns None
         \<longrightarrow> parsed_rows w e = 0) \<and>
     (\<exists>t rs. executor_map (fetch_state_data w) cat = (t, Returns rs) \<and> length rs = length cat)"
proof -
  let ?rs = "map (\<lambda>e. case snd (fetch_state_data w e) of Raises x \<Rightarrow> None | Returns r \<Rightarrow> r) cat"
  have ex: "executor_map (fetch_state_data w) cat =
      (concat (map (\<lambda>e. fst (fetch_state_data w e)) cat), Returns ?rs)"
    by (rule fetch_all_returns [OF keys])
  from main_on_snapshot [OF snap] ex
  have pr: "snd (process_and_clean_data (concat_frames (all_dfs_of ?rs))) = Returns df"
    by auto
  have "length (rows df) = length (rows (concat_frames (region_tables w cat)))"
    using process_length [OF pr] by (simp only: all_dfs_of_region_tables)
  also have "\<dots> = sum_list (map (parsed_rows w) cat)"
    by (simp only: concat_frames_length region_tables_rows [OF keys shape])
  finally have count: "length (rows df) = sum_list (map (parsed_rows w) cat)" .
  have zero: "parsed_rows w e = 0"
    if "e \<in> set cat" "dict_get e ''idTabela'' = PNone \<or> snd (fetch_state_data w e) = Returns None"
    for e
  proof -
    from that(1) keys have key: "map_of e ''idPacote'' \<noteq> None" by simp
    from that(2) show ?thesis
    proof
      assume "dict_get e ''idTabela'' = PNone"
      then show ?thesis by (simp add: parsed_rows_def)
    next
      assume "snd (fetch_state_data w e) = Returns None"
      then show ?thesis by (simp add: parsed_rows_fetch [OF key])
    qed
  qed
  have "length ?rs = length cat" by simp
  with ex count zero show ?thesis by blast
qed

lemma example_parsed_rows:
  "map (parsed_rows world_example) catalogue_example = [2, 0, 0]"
  by (simp add: catalogue_example_def parsed_rows_def dict_get_def world_example_def
      py_strip_def py_isspace_def raw_example_def)

theorem final_row_count_witness:
  "ToCsv OUTPUT_FILENAME normalized_example \<in> set (fst (main_on world_example catalogue_example)) \<and>
   length (rows normalized_example) = 2 \<and>
   sum_list (map (parsed_rows world_example) catalogue_example) = 2"
proof -
  have keys: "\<forall>e\<in>set catalogue_example. map_of e ''idPacote'' \<noteq> None"
    by (simp add: catalogue_example_def)
  have shape: "\<forall>body d. read_csv world_example body = Returns d \<longrightarrow> columns d = [] \<longrightarrow> rows d = []"
    by (simp add: world_example_def raw_example_def)
  have snap: "ToCsv OUTPUT_FILENAME normalized_example
      \<in> set (fst (main_on world_example catalogue_example))"
    by (simp add: main_example)
  from final_row_count [OF keys shape snap] snap show ?thesis
    by (simp add: example_parsed_rows normalized_example_def)
qed


section \<open>Order of the merge\<close>












end
